theory Spec2Isabelle
  imports Main
begin

section \<open>JavaScript values the server actions look at\<close>

text \<open>
  The session object returned by \<^verbatim>\<open>auth()\<close>: the source reads it only through
  \<^verbatim>\<open>session?.user?.id\<close>, so every level may be absent.
\<close>

record session_user =
  su_id :: "string option"
  su_name :: "string option"

record session =
  s_user :: "session_user option"

text \<open>\<^verbatim>\<open>session?.user?.id\<close>: absent as soon as one level is absent.\<close>

definition session_user_id :: "session option \<Rightarrow> string option" where
  "session_user_id s =
     (case s of None \<Rightarrow> None
      | Some se \<Rightarrow> (case s_user se of None \<Rightarrow> None | Some u \<Rightarrow> su_id u))"

text \<open>
  JavaScript truthiness of a value of type \<^verbatim>\<open>string | null | undefined\<close>
  (\<^verbatim>\<open>!!v\<close>): null, undefined and the empty string are falsy.
\<close>

definition truthy :: "string option \<Rightarrow> bool" where
  "truthy v = (case v of None \<Rightarrow> False | Some s \<Rightarrow> s \<noteq> [])"

text \<open>What a call can throw: \<^verbatim>\<open>new Error(message)\<close> of the actions themselves.\<close>

datatype error = Error string

text \<open>
  What \<^verbatim>\<open>prisma.*.create\<close> can throw: a \<^verbatim>\<open>PrismaClientKnownRequestError\<close> with its
  \<^verbatim>\<open>code\<close>, or any other error value.
\<close>

datatype thrown = PrismaClientKnownRequestError string | UnknownError


section \<open>The persistence store (prisma/schema.prisma)\<close>

record user_row =
  user_id :: string
  user_name :: "string option"
  user_email :: "string option"

record poll_row =
  poll_id :: string
  poll_question :: string
  poll_createdAt :: nat
  poll_authorId :: string

record option_row =
  option_id :: string
  option_text :: string
  option_pollId :: string

record vote_row =
  vote_id :: string
  vote_optionId :: string
  vote_userId :: string

text \<open>
  The four application tables, each in insertion order. The tables of the identity
  provider (Account, Session, VerificationToken) are read and written by the
  authentication library only and are left out.
\<close>

record database =
  users :: "user_row list"
  polls :: "poll_row list"
  options :: "option_row list"
  votes :: "vote_row list"

text \<open>
  \<^verbatim>\<open>prisma.vote.create({data: {optionId, userId}})\<close> against the model \<^verbatim>\<open>Vote\<close>:
  the primary key \<^verbatim>\<open>id\<close> (the value \<^verbatim>\<open>cuid()\<close> produced for this row, passed in as
  \<open>newId\<close>) and \<^verbatim>\<open>@@unique([optionId, userId])\<close> are unique indexes, whose violation is
  reported as P2002; the relations to \<^verbatim>\<open>Option\<close> and \<^verbatim>\<open>User\<close> are foreign keys, whose
  violation is reported as P2003. The insert is one atomic statement of the database.
\<close>

definition vote_create :: "database \<Rightarrow> string \<Rightarrow> string \<Rightarrow> string \<Rightarrow> thrown + database" where
  "vote_create d newId optionId userId =
     (if list_ex (\<lambda>v. vote_id v = newId) (votes d)
         \<or> list_ex (\<lambda>v. vote_optionId v = optionId \<and> vote_userId v = userId) (votes d)
      then Inl (PrismaClientKnownRequestError ''P2002'')
      else if list_ex (\<lambda>x. option_id x = optionId) (options d)
              \<and> list_ex (\<lambda>u. user_id u = userId) (users d)
      then Inr (d\<lparr>votes := votes d
                  @ [\<lparr>vote_id = newId, vote_optionId = optionId, vote_userId = userId\<rparr>]\<rparr>)
      else Inl (PrismaClientKnownRequestError ''P2003''))"

text \<open>
  \<^verbatim>\<open>prisma.poll.create\<close> with the nested \<^verbatim>\<open>options: {create: [...]}\<close>: the poll and all
  its options are inserted in one transaction. \<open>cuid\<close> is the source of fresh ids of this
  call: \<open>cuid 0\<close> for the poll, \<open>cuid 1\<close>, \<open>cuid 2\<close>, ... for the options in order.
\<close>

definition new_options :: "(nat \<Rightarrow> string) \<Rightarrow> string \<Rightarrow> string list \<Rightarrow> option_row list" where
  "new_options cuid pollId texts =
     map (\<lambda>(k, t). \<lparr>option_id = cuid (Suc k), option_text = t, option_pollId = pollId\<rparr>)
       (enumerate 0 texts)"

definition poll_create ::
  "database \<Rightarrow> (nat \<Rightarrow> string) \<Rightarrow> nat \<Rightarrow> string \<Rightarrow> string \<Rightarrow> string list \<Rightarrow> thrown + database" where
  "poll_create d cuid now question authorId texts =
     (let created = new_options cuid (cuid 0) texts in
      if list_ex (\<lambda>p. poll_id p = cuid 0) (polls d)
         \<or> list_ex (\<lambda>x. option_id x \<in> set (map option_id created)) (options d)
         \<or> \<not> distinct (map option_id created)
      then Inl (PrismaClientKnownRequestError ''P2002'')
      else if list_ex (\<lambda>u. user_id u = authorId) (users d)
      then Inr (d\<lparr>polls := polls d
                    @ [\<lparr>poll_id = cuid 0, poll_question = question, poll_createdAt = now,
                         poll_authorId = authorId\<rparr>],
                  options := options d @ created\<rparr>)
      else Inl (PrismaClientKnownRequestError ''P2003''))"


section \<open>The server actions (app/actions.ts)\<close>

text \<open>
  The world a server action runs in: the database, and the log of the calls the action
  made to its collaborators (a persistence call is logged whether or not it succeeds).
\<close>

datatype effect = PrismaVoteCreate | PrismaPollCreate | RevalidatePath string

record world =
  db :: database
  effects :: "effect list"

text \<open>
  The \<^verbatim>\<open>catch\<close> block of \<^verbatim>\<open>submitVote\<close>: only the code P2002 of a known request error
  gets a message of its own; everything else falls through to the last \<^verbatim>\<open>throw\<close>.
\<close>

definition submitVote_catch :: "thrown \<Rightarrow> error" where
  "submitVote_catch e =
     (case e of
        PrismaClientKnownRequestError code \<Rightarrow>
          (if code = ''P2002'' then Error ''You have already voted on this poll.''
           else Error ''Could not submit vote. Please try again.'')
      | UnknownError \<Rightarrow> Error ''Could not submit vote. Please try again.'')"

text \<open>
  \<^verbatim>\<open>submitVote(optionId)\<close>. \<open>sess\<close> is what \<^verbatim>\<open>auth()\<close> returns for the request and
  \<open>newId\<close> the id \<^verbatim>\<open>cuid()\<close> gives the new row. A thrown error is \<open>Inl\<close>. The parameter
  is typed \<^verbatim>\<open>string\<close>, so of \<^verbatim>\<open>!optionId || typeof optionId !== "string"\<close> only the
  empty string remains.
\<close>

definition submitVote ::
  "session option \<Rightarrow> string \<Rightarrow> world \<Rightarrow> string \<Rightarrow> (error + unit) \<times> world" where
  "submitVote sess newId w optionId =
     (case session_user_id sess of
        None \<Rightarrow> (Inl (Error ''Not authenticated. Please sign in to vote.''), w)
      | Some uid \<Rightarrow>
          if uid = [] then (Inl (Error ''Not authenticated. Please sign in to vote.''), w)
          else if optionId = [] then (Inl (Error ''Invalid option ID provided.''), w)
          else
            (case vote_create (db w) newId optionId uid of
               Inr d' \<Rightarrow>
                 (Inr (), w\<lparr>db := d', effects := effects w @ [PrismaVoteCreate, RevalidatePath ''/'']\<rparr>)
             | Inl e \<Rightarrow>
                 (Inl (submitVote_catch e), w\<lparr>effects := effects w @ [PrismaVoteCreate]\<rparr>)))"

text \<open>
  \<^verbatim>\<open>FormData\<close>: the submitted fields in order. \<^verbatim>\<open>get(name)\<close> is the first value of that
  name or null, \<^verbatim>\<open>getAll(name)\<close> all of them in order. The source casts the values to
  \<^verbatim>\<open>string\<close>.
\<close>

type_synonym form_data = "(string \<times> string) list"

definition getAll :: "form_data \<Rightarrow> string \<Rightarrow> string list" where
  "getAll fd name = map snd (filter (\<lambda>kv. fst kv = name) fd)"

definition get_field :: "form_data \<Rightarrow> string \<Rightarrow> string option" where
  "get_field fd name = (case getAll fd name of [] \<Rightarrow> None | v # _ \<Rightarrow> Some v)"

text \<open>
  \<^verbatim>\<open>String.prototype.trim\<close>, for the ASCII white space characters (space, tab, line
  feed, vertical tab, form feed, carriage return).
\<close>

definition is_space :: "char \<Rightarrow> bool" where
  "is_space c = (c \<in> set [CHR '' '', CHR 0x09, CHR 0x0A, CHR 0x0B, CHR 0x0C, CHR 0x0D])"

definition trim :: "string \<Rightarrow> string" where
  "trim s = rev (dropWhile is_space (rev (dropWhile is_space s)))"

text \<open>What \<^verbatim>\<open>createPoll\<close> gives its caller: an \<^verbatim>\<open>{error}\<close> object, nothing, or an exception
  of the persistence call, which the action does not catch.\<close>

datatype createPoll_result = ReturnedError string | ReturnedUndefined | Threw thrown

definition createPoll ::
  "session option \<Rightarrow> (nat \<Rightarrow> string) \<Rightarrow> nat \<Rightarrow> world \<Rightarrow> form_data \<Rightarrow> createPoll_result \<times> world" where
  "createPoll sess cuid now w formData =
     (case session_user_id sess of
        None \<Rightarrow> (ReturnedError ''Not authenticated'', w)
      | Some uid \<Rightarrow>
          if uid = [] then (ReturnedError ''Not authenticated'', w)
          else
            (let question = get_field formData ''question'';
                 opts = filter (\<lambda>opt. trim opt \<noteq> []) (getAll formData ''option'')
             in if \<not> truthy question \<or> length opts < 2
                then (ReturnedError ''Question and at least two options are required.'', w)
                else
                  (case poll_create (db w) cuid now (case question of None \<Rightarrow> [] | Some q \<Rightarrow> q) uid opts of
                     Inr d' \<Rightarrow>
                       (ReturnedUndefined,
                        w\<lparr>db := d', effects := effects w @ [PrismaPollCreate, RevalidatePath ''/'']\<rparr>)
                   | Inl e \<Rightarrow> (Threw e, w\<lparr>effects := effects w @ [PrismaPollCreate]\<rparr>))))"

text \<open>
  A request to the server, and the world after serving a sequence of them. Each action
  touches the database in a single atomic statement, so every interleaving of
  concurrent requests acts on the database like one of their sequential orders.
\<close>

datatype request =
    SubmitVote "session option" string string
  | CreatePoll "session option" "nat \<Rightarrow> string" nat form_data

fun serve :: "world \<Rightarrow> request \<Rightarrow> world" where
  "serve w (SubmitVote sess newId optionId) = snd (submitVote sess newId w optionId)"
| "serve w (CreatePoll sess cuid now fd) = snd (createPoll sess cuid now w fd)"

definition run :: "world \<Rightarrow> request list \<Rightarrow> world" where
  "run w reqs = foldl serve w reqs"

text \<open>The uniqueness invariant of \<^verbatim>\<open>@@unique([optionId, userId])\<close>, and the rows of a pair.\<close>

definition unique_votes :: "database \<Rightarrow> bool" where
  "unique_votes d = distinct (map (\<lambda>v. (vote_optionId v, vote_userId v)) (votes d))"

definition votes_for :: "database \<Rightarrow> string \<Rightarrow> string \<Rightarrow> vote_row list" where
  "votes_for d optionId userId =
     filter (\<lambda>v. vote_optionId v = optionId \<and> vote_userId v = userId) (votes d)"

text \<open>The votes of a user on the options of one poll (the join \<^verbatim>\<open>option: {pollId}\<close>).\<close>

definition in_poll :: "database \<Rightarrow> string \<Rightarrow> vote_row \<Rightarrow> bool" where
  "in_poll d pollId v =
     list_ex (\<lambda>x. option_id x = vote_optionId v \<and> option_pollId x = pollId) (options d)"

definition votes_in_poll :: "database \<Rightarrow> string \<Rightarrow> string \<Rightarrow> vote_row list" where
  "votes_in_poll d userId pollId =
     filter (\<lambda>v. vote_userId v = userId \<and> in_poll d pollId v) (votes d)"

text \<open>Referential integrity of \<^verbatim>\<open>Vote.optionId\<close>, which the database maintains.\<close>

definition votes_reference_options :: "database \<Rightarrow> bool" where
  "votes_reference_options d =
     list_all (\<lambda>v. list_ex (\<lambda>x. option_id x = vote_optionId v) (options d)) (votes d)"

text \<open>Referential integrity of \<^verbatim>\<open>Option.pollId\<close>.\<close>

definition options_reference_polls :: "database \<Rightarrow> bool" where
  "options_reference_polls d =
     list_all (\<lambda>x. list_ex (\<lambda>p. poll_id p = option_pollId x) (polls d)) (options d)"


section \<open>The poll read model (app/page.tsx)\<close>

text \<open>An option with \<^verbatim>\<open>_count.votes\<close>, and a poll as \<^verbatim>\<open>HomePage\<close> hands it to the card.\<close>

record option_view =
  ov_id :: string
  ov_text :: string
  ov_pollId :: string
  ov_votes :: nat

record poll_view =
  pv_id :: string
  pv_question :: string
  pv_createdAt :: nat
  pv_authorId :: string
  pv_author :: "string option"
  pv_options :: "option_view list"
  pv_userVote :: "string option"

definition count_votes :: "database \<Rightarrow> string \<Rightarrow> nat" where
  "count_votes d optionId = length (filter (\<lambda>v. vote_optionId v = optionId) (votes d))"

text \<open>
  \<^verbatim>\<open>prisma.poll.findMany\<close> with the author's name, the options and their vote counts
  (\<open>with_details\<close>, the \<^verbatim>\<open>include\<close> clause), newest poll first (polls created at the
  same instant come in some order; here the later row first). \<^verbatim>\<open>userVote\<close> is not part
  of this result; it is filled in below.
\<close>

definition with_details :: "database \<Rightarrow> poll_row \<Rightarrow> poll_view" where
  "with_details d p =
     \<lparr>pv_id = poll_id p, pv_question = poll_question p,
      pv_createdAt = poll_createdAt p, pv_authorId = poll_authorId p,
      pv_author = (case find (\<lambda>u. user_id u = poll_authorId p) (users d) of
                     None \<Rightarrow> None | Some u \<Rightarrow> user_name u),
      pv_options =
        map (\<lambda>x. \<lparr>ov_id = option_id x, ov_text = option_text x,
                  ov_pollId = option_pollId x,
                  ov_votes = count_votes d (option_id x)\<rparr>)
          (filter (\<lambda>x. option_pollId x = poll_id p) (options d)),
      pv_userVote = None\<rparr>"

definition findMany_polls :: "database \<Rightarrow> poll_view list" where
  "findMany_polls d = map (with_details d) (rev (sort_key poll_createdAt (polls d)))"

text \<open>
  \<^verbatim>\<open>prisma.vote.findFirst\<close> of a user's vote among the options of a poll. The query
  gives no order; the rows are taken in table order.
\<close>

definition findFirst_vote :: "database \<Rightarrow> string \<Rightarrow> string \<Rightarrow> vote_row option" where
  "findFirst_vote d userId pollId =
     find (\<lambda>v. vote_userId v = userId \<and> in_poll d pollId v) (votes d)"

text \<open>
  The function mapped over the polls in \<^verbatim>\<open>HomePage\<close>: \<^verbatim>\<open>userVote\<close> stays null without
  a user id, and is \<^verbatim>\<open>vote?.optionId || null\<close> otherwise.
\<close>

definition userVote_of :: "session option \<Rightarrow> database \<Rightarrow> string \<Rightarrow> string option" where
  "userVote_of sess d pollId =
     (case session_user_id sess of
        None \<Rightarrow> None
      | Some uid \<Rightarrow>
          if uid = [] then None
          else (case findFirst_vote d uid pollId of
                  None \<Rightarrow> None
                | Some vote \<Rightarrow>
                    if vote_optionId vote = [] then None else Some (vote_optionId vote)))"

definition pollsWithUserVote :: "session option \<Rightarrow> database \<Rightarrow> poll_view list" where
  "pollsWithUserVote sess d =
     map (\<lambda>poll. poll\<lparr>pv_userVote := userVote_of sess d (pv_id poll)\<rparr>) (findMany_polls d)"

text \<open>What a listing shows for an option: its counts, and the user's vote of its poll.\<close>

definition shown_count :: "poll_view list \<Rightarrow> string \<Rightarrow> nat list" where
  "shown_count views optionId =
     concat (map (\<lambda>pv. map ov_votes (filter (\<lambda>x. ov_id x = optionId) (pv_options pv))) views)"

definition shown_userVote :: "poll_view list \<Rightarrow> string \<Rightarrow> string option list" where
  "shown_userVote views optionId =
     map pv_userVote (filter (\<lambda>pv. list_ex (\<lambda>x. ov_id x = optionId) (pv_options pv)) views)"


section \<open>The poll card (app/components/PollCard.tsx)\<close>

text \<open>
  The card's objects live in a store: the option objects (with the count of
  \<^verbatim>\<open>_count.votes\<close>, an integer-valued JavaScript number) are reached through
  references, because the update function writes to one of them in place while the
  authoritative \<^verbatim>\<open>pollData\<close> and the optimistic state both point at it. A poll object
  itself is only ever copied (\<^verbatim>\<open>{...currentState, userVote}\<close>), so it is a value that
  holds the references of its \<^verbatim>\<open>options\<close> array.
\<close>

record option_obj =
  o_id :: string
  o_text :: string
  o_pollId :: string
  o_votes :: int

type_synonym ref = nat

type_synonym heap = "ref \<Rightarrow> option_obj"

record poll_obj =
  p_id :: string
  p_question :: string
  p_createdAt :: nat
  p_authorId :: string
  p_author :: "string option"
  p_options :: "ref list"
  p_userVote :: "string option"

text \<open>
  The update function given to \<^verbatim>\<open>useOptimistic\<close>: \<^verbatim>\<open>find\<close> returns the first option
  object with the id, \<^verbatim>\<open>newOption._count.votes++\<close> writes to that object in the store,
  and the result is a copy of \<open>currentState\<close> with \<^verbatim>\<open>userVote\<close> replaced.
\<close>

definition updater :: "heap \<Rightarrow> poll_obj \<Rightarrow> string \<Rightarrow> heap \<times> poll_obj" where
  "updater h currentState votedOptionId =
     (let newOption = find (\<lambda>r. o_id (h r) = votedOptionId) (p_options currentState);
          h' = (case newOption of
                  None \<Rightarrow> h
                | Some r \<Rightarrow> h(r := (h r)\<lparr>o_votes := o_votes (h r) + 1\<rparr>))
      in (h', currentState\<lparr>p_userVote := Some votedOptionId\<rparr>))"

text \<open>What the card renders of a poll object: each option's id with the count in its
  \<^verbatim>\<open>span\<close>, and whether the vote buttons are disabled
  (\<^verbatim>\<open>!!optimisticPoll.userVote || !isLoggedIn\<close>; the earlier version of the card has no
  \<^verbatim>\<open>isLoggedIn\<close> and is the case \<open>isLoggedIn = True\<close>).\<close>

definition shown_votes :: "heap \<Rightarrow> poll_obj \<Rightarrow> (string \<times> int) list" where
  "shown_votes h p = map (\<lambda>r. (o_id (h r), o_votes (h r))) (p_options p)"

definition disabled :: "poll_obj \<Rightarrow> bool \<Rightarrow> bool" where
  "disabled optimisticPoll isLoggedIn = (truthy (p_userVote optimisticPoll) \<or> \<not> isLoggedIn)"

text \<open>
  The card between renders: the store, the \<^verbatim>\<open>pollData\<close> prop, the state
  \<^verbatim>\<open>useOptimistic\<close> returns, and the \<^verbatim>\<open>submitVote\<close> calls issued so far. The hook
  returns \<^verbatim>\<open>pollData\<close> itself while no action is pending, the result of the update
  function while one is, and \<^verbatim>\<open>pollData\<close> again once the action has ended; the update
  function is run once per \<^verbatim>\<open>setOptimisticPoll\<close> here (React may run it again on later
  renders).
\<close>

record card =
  store :: heap
  pollData :: poll_obj
  optimisticPoll :: poll_obj
  isLoggedIn :: bool
  requests :: "string list"

definition mount :: "heap \<Rightarrow> poll_obj \<Rightarrow> bool \<Rightarrow> card" where
  "mount h p l = \<lparr>store = h, pollData = p, optimisticPoll = p, isLoggedIn = l, requests = []\<rparr>"

text \<open>\<^verbatim>\<open>handleVote\<close> up to its \<^verbatim>\<open>await\<close>: the optimistic update, then the call.\<close>

definition handleVote :: "card \<Rightarrow> string \<Rightarrow> card" where
  "handleVote c optionId =
     (case updater (store c) (optimisticPoll c) optionId of
        (h', p') \<Rightarrow> c\<lparr>store := h', optimisticPoll := p', requests := requests c @ [optionId]\<rparr>)"

text \<open>
  The end of the action, with the result of the \<^verbatim>\<open>submitVote\<close> call. \<^verbatim>\<open>handleVote\<close>
  catches the error of a failed call and only logs it, so success and failure end the
  action alike, and the optimistic state falls back to \<^verbatim>\<open>pollData\<close>. After a failure
  no new \<^verbatim>\<open>pollData\<close> arrives: \<^verbatim>\<open>revalidatePath\<close> was not reached.
\<close>

definition settle :: "card \<Rightarrow> error + unit \<Rightarrow> card" where
  "settle c result = (case result of Inl e \<Rightarrow> c\<lparr>optimisticPoll := pollData c\<rparr>
                                   | Inr u \<Rightarrow> c\<lparr>optimisticPoll := pollData c\<rparr>)"

text \<open>Submitting an option's form through its button: a disabled button submits nothing.\<close>

definition submit_form :: "card \<Rightarrow> string \<Rightarrow> card" where
  "submit_form c optionId =
     (if disabled (optimisticPoll c) (isLoggedIn c) then c else handleVote c optionId)"


section \<open>The scenario of the specification\<close>

text \<open>Poll "Best language?" with the options Go and Rust, no votes yet, users A and B.\<close>

definition session_of :: "string \<Rightarrow> session option" where
  "session_of uid = Some \<lparr>s_user = Some \<lparr>su_id = Some uid, su_name = None\<rparr>\<rparr>"

definition scenario_db :: database where
  "scenario_db =
     \<lparr>users = [\<lparr>user_id = ''userA'', user_name = Some ''A'', user_email = None\<rparr>,
               \<lparr>user_id = ''userB'', user_name = Some ''B'', user_email = None\<rparr>],
      polls = [\<lparr>poll_id = ''poll1'', poll_question = ''Best language?'',
                poll_createdAt = 1, poll_authorId = ''userA''\<rparr>],
      options = [\<lparr>option_id = ''optGo'', option_text = ''Go'', option_pollId = ''poll1''\<rparr>,
                 \<lparr>option_id = ''optRust'', option_text = ''Rust'', option_pollId = ''poll1''\<rparr>],
      votes = []\<rparr>"

definition scenario_world :: world where
  "scenario_world = \<lparr>db = scenario_db, effects = []\<rparr>"

definition scenario_cuid :: "nat \<Rightarrow> string" where
  "scenario_cuid k = replicate (Suc k) CHR ''c''"

definition scenario_heap :: heap where
  "scenario_heap =
     (\<lambda>r. if r = 0
          then \<lparr>o_id = ''optGo'', o_text = ''Go'', o_pollId = ''poll1'', o_votes = 0\<rparr>
          else \<lparr>o_id = ''optRust'', o_text = ''Rust'', o_pollId = ''poll1'', o_votes = 0\<rparr>)"

definition scenario_poll :: poll_obj where
  "scenario_poll =
     \<lparr>p_id = ''poll1'', p_question = ''Best language?'', p_createdAt = 1,
      p_authorId = ''userA'', p_author = Some ''A'', p_options = [0, 1], p_userVote = None\<rparr>"


section \<open>Facts about the store and the vote action\<close>

lemma vote_create_votes:
  "vote_create d i opt u = Inr d' \<Longrightarrow>
     votes d' = votes d @ [\<lparr>vote_id = i, vote_optionId = opt, vote_userId = u\<rparr>]
     \<and> \<not> list_ex (\<lambda>v. vote_optionId v = opt \<and> vote_userId v = u) (votes d)
     \<and> users d' = users d \<and> polls d' = polls d \<and> options d' = options d"
  by (auto simp: vote_create_def split: if_splits)

lemma vote_create_unique:
  assumes "unique_votes d" "vote_create d i opt u = Inr d'"
  shows "unique_votes d'"
proof -
  from vote_create_votes[OF assms(2)]
  have v: "votes d' = votes d @ [\<lparr>vote_id = i, vote_optionId = opt, vote_userId = u\<rparr>]"
    and n: "\<not> list_ex (\<lambda>v. vote_optionId v = opt \<and> vote_userId v = u) (votes d)" by auto
  from n have "(opt, u) \<notin> set (map (\<lambda>v. (vote_optionId v, vote_userId v)) (votes d))"
    by (auto simp: list_ex_iff)
  with assms(1) show ?thesis by (simp add: unique_votes_def v)
qed

lemma submitVote_cases:
  "snd (submitVote sess i w opt) = w
   \<or> (\<exists>uid d'. vote_create (db w) i opt uid = Inr d' \<and> db (snd (submitVote sess i w opt)) = d')
   \<or> db (snd (submitVote sess i w opt)) = db w"
  by (auto simp: submitVote_def split: option.splits sum.splits)

lemma submitVote_unique:
  "unique_votes (db w) \<Longrightarrow> unique_votes (db (snd (submitVote sess i w opt)))"
  using submitVote_cases[of sess i w opt] vote_create_unique by metis

lemma poll_create_votes: "poll_create d cuid now q a ts = Inr d' \<Longrightarrow> votes d' = votes d"
  by (auto simp: poll_create_def Let_def split: if_splits)

lemma createPoll_votes: "votes (db (snd (createPoll sess cuid now w fd))) = votes (db w)"
  by (auto simp: createPoll_def Let_def poll_create_votes split: option.splits sum.splits)

lemma serve_unique: "unique_votes (db w) \<Longrightarrow> unique_votes (db (serve w r))"
  by (cases r) (simp_all add: submitVote_unique, simp add: unique_votes_def createPoll_votes)

lemma run_unique: "unique_votes (db w) \<Longrightarrow> unique_votes (db (run w reqs))"
  unfolding run_def by (induction reqs arbitrary: w) (simp_all add: serve_unique)

lemma distinct_filter_le1:
  "distinct (map f xs) \<Longrightarrow> length (filter (\<lambda>x. f x = k) xs) \<le> Suc 0"
proof (induction xs)
  case Nil then show ?case by simp
next
  case (Cons x xs)
  show ?case
  proof (cases "f x = k")
    case True
    with Cons.prems have "k \<notin> f ` set xs" by auto
    then have "filter (\<lambda>x. f x = k) xs = []" by (auto simp: filter_empty_conv)
    with True show ?thesis by simp
  next
    case False with Cons show ?thesis by simp
  qed
qed

lemma unique_votes_le1: "unique_votes d \<Longrightarrow> length (votes_for d opt u) \<le> 1"
  using distinct_filter_le1[of "\<lambda>v. (vote_optionId v, vote_userId v)" "votes d" "(opt, u)"]
  by (simp add: unique_votes_def votes_for_def)

lemma submitVote_votes_mono:
  "set (votes (db w)) \<subseteq> set (votes (db (snd (submitVote sess i w opt))))"
  using submitVote_cases[of sess i w opt] by (auto dest: vote_create_votes)

lemma serve_votes_mono: "set (votes (db w)) \<subseteq> set (votes (db (serve w r)))"
  by (cases r) (simp_all add: submitVote_votes_mono createPoll_votes)

lemma run_votes_mono: "set (votes (db w)) \<subseteq> set (votes (db (run w reqs)))"
  unfolding run_def
proof (induction reqs arbitrary: w)
  case Nil then show ?case by simp
next
  case (Cons r reqs)
  have "set (votes (db w)) \<subseteq> set (votes (db (serve w r)))" by (rule serve_votes_mono)
  also have "\<dots> \<subseteq> set (votes (db (foldl serve (serve w r) reqs)))" by (rule Cons.IH)
  finally show ?case by simp
qed

lemma submitVote_duplicate:
  assumes "session_user_id sess = Some u" "u \<noteq> []" "opt \<noteq> []"
    and "list_ex (\<lambda>v. vote_optionId v = opt \<and> vote_userId v = u) (votes (db w))"
  shows "submitVote sess i w opt
         = (Inl (Error ''You have already voted on this poll.''),
            w\<lparr>effects := effects w @ [PrismaVoteCreate]\<rparr>)"
  using assms by (simp add: submitVote_def vote_create_def submitVote_catch_def)

lemma submitVote_fresh:
  assumes "session_user_id sess = Some u" "u \<noteq> []" "opt \<noteq> []"
    and "list_ex (\<lambda>x. option_id x = opt) (options (db w))"
    and "list_ex (\<lambda>x. user_id x = u) (users (db w))"
    and "\<not> list_ex (\<lambda>v. vote_id v = i) (votes (db w))"
    and "votes_for (db w) opt u = []"
  shows "submitVote sess i w opt
         = (Inr (),
            w\<lparr>db := (db w)\<lparr>votes := votes (db w)
                       @ [\<lparr>vote_id = i, vote_optionId = opt, vote_userId = u\<rparr>]\<rparr>,
              effects := effects w @ [PrismaVoteCreate, RevalidatePath ''/'']\<rparr>)"
proof -
  from assms(7) have "\<not> list_ex (\<lambda>v. vote_optionId v = opt \<and> vote_userId v = u) (votes (db w))"
    by (auto simp: votes_for_def filter_empty_conv list_ex_iff)
  with assms show ?thesis by (simp add: submitVote_def vote_create_def)
qed

lemma no_vote_for_unknown_option:
  assumes "votes_reference_options d" "\<not> list_ex (\<lambda>x. option_id x = opt) (options d)"
  shows "\<not> list_ex (\<lambda>v. vote_optionId v = opt \<and> vote_userId v = u) (votes d)"
  using assms by (auto simp: votes_reference_options_def list_all_iff list_ex_iff)

lemma filter_length_mono:
  "(\<And>x. P x \<Longrightarrow> Q x) \<Longrightarrow> length (filter P xs) \<le> length (filter Q xs)"
  by (induction xs) auto

lemma trim_nonempty: "trim t \<noteq> [] \<Longrightarrow> t \<noteq> []"
  by (auto simp: trim_def)

lemma nonblank_le_nonempty:
  "length (filter (\<lambda>opt. trim opt \<noteq> []) xs) \<le> length (filter (\<lambda>t. t \<noteq> []) xs)"
  by (rule filter_length_mono) (rule trim_nonempty)

lemmas scenario_defs =
  scenario_db_def scenario_world_def session_of_def session_user_id_def scenario_cuid_def


section \<open>Facts about the read model\<close>

lemma find_append_none:
  "find P xs = None \<Longrightarrow> find P (xs @ ys) = find P ys"
  by (induction xs) (auto split: if_splits)

lemma filter_key_single:
  "distinct (map f xs) \<Longrightarrow> x \<in> set xs \<Longrightarrow> filter (\<lambda>y. f y = f x) xs = [x]"
proof (induction xs)
  case Nil then show ?case by simp
next
  case (Cons a xs)
  show ?case
  proof (cases "a = x")
    case True
    with Cons.prems(1) have "f x \<notin> f ` set xs" by auto
    then have "\<forall>y\<in>set xs. f y \<noteq> f x" by (metis imageI)
    then have "filter (\<lambda>y. f y = f x) xs = []" by (simp add: filter_empty_conv)
    with True show ?thesis by simp
  next
    case False
    with Cons.prems have "x \<in> set xs" "f a \<noteq> f x" by auto
    with Cons show ?thesis by simp
  qed
qed

lemma newest_first_filter:
  "filter Q (rev (sort_key f xs)) = rev (sort_key f (filter Q xs))"
  by (simp only: rev_filter[symmetric] filter_sort)

lemma shown_options_of:
  "map ov_votes
     (filter (\<lambda>y. ov_id y = opt)
        (map (\<lambda>x. \<lparr>ov_id = option_id x, ov_text = option_text x, ov_pollId = option_pollId x,
                   ov_votes = c (option_id x)\<rparr>)
           (filter (\<lambda>x. option_pollId x = pid) xs)))
   = map (\<lambda>y. c opt) (filter (\<lambda>y. option_id y = opt \<and> option_pollId y = pid) xs)"
  by (induction xs) auto

lemma has_option_of:
  "list_ex (\<lambda>y. ov_id y = opt)
     (map (\<lambda>x. \<lparr>ov_id = option_id x, ov_text = option_text x, ov_pollId = option_pollId x,
                ov_votes = c (option_id x)\<rparr>)
        (filter (\<lambda>x. option_pollId x = pid) xs))
   = list_ex (\<lambda>y. option_id y = opt \<and> option_pollId y = pid) xs"
  by (induction xs) auto

lemma shown_userVote_unfold:
  "shown_userVote (pollsWithUserVote sess d) opt
   = map (\<lambda>q. userVote_of sess d (poll_id q))
       (filter (\<lambda>q. list_ex (\<lambda>y. option_id y = opt \<and> option_pollId y = poll_id q) (options d))
          (rev (sort_key poll_createdAt (polls d))))"
proof -
  have v: "pv_options (with_details d q\<lparr>pv_userVote := u\<rparr>) = pv_options (with_details d q)"
    "pv_id (with_details d q) = poll_id q" for q u
    by (simp_all add: with_details_def)
  show ?thesis
    unfolding shown_userVote_def pollsWithUserVote_def findMany_polls_def
    by (simp add: filter_map comp_def v) (simp add: with_details_def has_option_of)
qed

lemma shown_count_unfold:
  "shown_count (pollsWithUserVote sess d) opt
   = concat (map (\<lambda>q. map (\<lambda>y. count_votes d opt)
                        (filter (\<lambda>y. option_id y = opt \<and> option_pollId y = poll_id q) (options d)))
               (rev (sort_key poll_createdAt (polls d))))"
  unfolding shown_count_def pollsWithUserVote_def findMany_polls_def
  by (simp add: comp_def) (simp add: with_details_def shown_options_of)

lemma concat_map_if:
  "concat (map (\<lambda>q. if Q q then [g q] else []) xs) = map g (filter Q xs)"
  by (induction xs) auto

lemma submitVote_success:
  assumes "fst (submitVote sess i w opt) = Inr ()"
  shows "\<exists>u d'. session_user_id sess = Some u \<and> u \<noteq> [] \<and> opt \<noteq> []
           \<and> vote_create (db w) i opt u = Inr d'
           \<and> db (snd (submitVote sess i w opt)) = d'"
  using assms by (auto simp: submitVote_def split: option.splits if_splits sum.splits)

text \<open>
  Reading after a confirmed write, for a user's first vote in a poll: when the keys of
  polls and options are unique and every option has its poll, and \<open>u\<close> had no vote on
  any option of the poll of \<open>opt\<close>, then after \<open>u\<close>'s accepted vote for \<open>opt\<close> the
  listing read for \<open>u\<close> shows \<open>opt\<close> as \<open>u\<close>'s vote and the count of \<open>opt\<close> one
  higher than the listing read before.
\<close>

lemma first_vote_in_poll_is_shown:
  assumes ok: "fst (submitVote sess newId w opt) = Inr ()"
    and u: "session_user_id sess = Some u"
    and pk: "distinct (map poll_id (polls (db w)))" "distinct (map option_id (options (db w)))"
    and fk: "options_reference_polls (db w)"
    and x: "x \<in> set (options (db w))" "option_id x = opt"
    and first: "votes_in_poll (db w) u (option_pollId x) = []"
  shows "shown_userVote (pollsWithUserVote sess (db (snd (submitVote sess newId w opt)))) opt
           = [Some opt]"
    and "shown_count (pollsWithUserVote sess (db w)) opt = [count_votes (db w) opt]"
    and "shown_count (pollsWithUserVote sess (db (snd (submitVote sess newId w opt)))) opt
           = [Suc (count_votes (db w) opt)]"
proof -
  let ?d = "db w" and ?d' = "db (snd (submitVote sess newId w opt))"
  let ?P = "option_pollId x"
  let ?row = "\<lparr>vote_id = newId, vote_optionId = opt, vote_userId = u\<rparr>"
  from submitVote_success[OF ok] u
  have ne: "u \<noteq> []" "opt \<noteq> []" and vc: "vote_create ?d newId opt u = Inr ?d'" by auto
  from vote_create_votes[OF vc]
  have votes': "votes ?d' = votes ?d @ [?row]"
    and same: "polls ?d' = polls ?d" "options ?d' = options ?d" by auto
  have cnt: "count_votes ?d' opt = Suc (count_votes ?d opt)"
    by (simp add: count_votes_def votes')
  from fk x(1) obtain p where p: "p \<in> set (polls ?d)" "poll_id p = ?P"
    by (auto simp: options_reference_polls_def list_all_iff list_ex_iff)
  have fx: "filter (\<lambda>y. option_id y = opt) (options ?d) = [x]"
    using filter_key_single[OF pk(2) x(1)] x(2) by simp
  have opts: "filter (\<lambda>y. option_id y = opt \<and> option_pollId y = pid) (options ?d)
                = (if pid = ?P then [x] else [])" for pid
  proof -
    have "filter (\<lambda>y. option_id y = opt \<and> option_pollId y = pid) (options ?d)
            = filter (\<lambda>y. option_pollId y = pid) (filter (\<lambda>y. option_id y = opt) (options ?d))"
      by (simp add: conj_commute)
    then show ?thesis by (auto simp: fx)
  qed
  have fp: "filter (\<lambda>q. poll_id q = ?P) (rev (sort_key poll_createdAt (polls ?d))) = [p]"
    using filter_key_single[OF pk(1) p(1)] p(2) by (simp add: newest_first_filter)
  have has: "list_ex (\<lambda>y. option_id y = opt \<and> option_pollId y = pid) (options ?d) = (pid = ?P)"
    for pid
  proof -
    have "list_ex (\<lambda>y. option_id y = opt \<and> option_pollId y = pid) (options ?d)
            = (filter (\<lambda>y. option_id y = opt \<and> option_pollId y = pid) (options ?d) \<noteq> [])"
      by (auto simp: list_ex_iff filter_empty_conv)
    then show ?thesis by (simp add: opts)
  qed
  have cnt_shape: "shown_count (pollsWithUserVote sess dd) opt = [count_votes dd opt]"
    if "polls dd = polls ?d" "options dd = options ?d" for dd
    by (simp add: shown_count_unfold that opts if_distrib[of "map _"] concat_map_if fp
          cong: if_cong)
  show "shown_count (pollsWithUserVote sess ?d) opt = [count_votes ?d opt]"
    by (rule cnt_shape) simp_all
  show "shown_count (pollsWithUserVote sess ?d') opt = [Suc (count_votes ?d opt)]"
    using cnt_shape[OF same] by (simp add: cnt)
  have inp: "in_poll ?d' ?P ?row"
    using x by (auto simp: in_poll_def same list_ex_iff)
  have "filter (\<lambda>v. vote_userId v = u \<and> in_poll ?d' ?P v) (votes ?d) = []"
    using first by (simp add: votes_in_poll_def in_poll_def same)
  then have "find (\<lambda>v. vote_userId v = u \<and> in_poll ?d' ?P v) (votes ?d) = None"
    by (auto simp: find_None_iff filter_empty_conv)
  then have "findFirst_vote ?d' u ?P = Some ?row"
    using inp by (simp add: findFirst_vote_def votes' find_append_none)
  then have uv: "userVote_of sess ?d' ?P = Some opt"
    using u ne by (simp add: userVote_of_def)
  show "shown_userVote (pollsWithUserVote sess ?d') opt = [Some opt]"
    by (simp add: shown_userVote_unfold same has fp p(2) uv)
qed


section \<open>Facts about the card\<close>

lemma updater_userVote [simp]:
  "p_userVote (snd (updater h s v)) = Some v" "p_options (snd (updater h s v)) = p_options s"
  by (simp_all add: updater_def Let_def)

lemma updater_unmatched:
  "v \<notin> set (map (\<lambda>r. o_id (h r)) (p_options s)) \<Longrightarrow> fst (updater h s v) = h"
proof -
  assume "v \<notin> set (map (\<lambda>r. o_id (h r)) (p_options s))"
  then have "find (\<lambda>r. o_id (h r) = v) (p_options s) = None"
    by (auto simp: find_None_iff)
  then show ?thesis by (simp add: updater_def Let_def)
qed

text \<open>
  The update in general: the count of the option object found is one higher in the store
  afterwards, for every poll object that points at it; and when the action ends the card
  shows \<^verbatim>\<open>pollData\<close> again, with its prior \<^verbatim>\<open>userVote\<close> and with that count.
\<close>

lemma updater_matched:
  assumes "find (\<lambda>r. o_id (h r) = v) (p_options s) = Some r"
  shows "o_votes (fst (updater h s v) r) = o_votes (h r) + 1"
  using assms by (simp add: updater_def Let_def)

lemma settle_restores_userVote:
  "p_userVote (optimisticPoll (settle (handleVote c v) result)) = p_userVote (pollData c)"
  by (simp add: settle_def handleVote_def split: prod.splits sum.splits)

lemma rollback_count:
  assumes "optimisticPoll c = pollData c"
    and "find (\<lambda>r. o_id (store c r) = v) (p_options (pollData c)) = Some r"
  shows "o_votes (store (settle (handleVote c v) result) r) = o_votes (store c r) + 1"
    and "optimisticPoll (settle (handleVote c v) result) = pollData c"
  using assms
  by (simp_all add: settle_def handleVote_def updater_def Let_def split: prod.splits sum.splits)

lemmas card_defs =
  mount_def handleVote_def settle_def submit_form_def updater_def shown_votes_def disabled_def
  truthy_def scenario_heap_def scenario_poll_def

lemma handleVote_fields [simp]:
  "p_userVote (optimisticPoll (handleVote c v)) = Some v"
  "isLoggedIn (handleVote c v) = isLoggedIn c"
  "requests (handleVote c v) = requests c @ [v]"
  "pollData (handleVote c v) = pollData c"
  by (simp_all add: handleVote_def updater_def Let_def)


section \<open>The claims\<close>

text \<open>
  C1. Along every sequence of requests the server serves, no pair of an option and a
  user ever has more than one Vote row. And when user \<open>u\<close> (signed in, with a User row)
  submits a vote for an existing option \<open>opt\<close> on which \<open>u\<close> has no row yet, the call
  succeeds and appends exactly one row for the pair; every later call of \<open>u\<close> for
  \<open>opt\<close> (a concurrent twin served second, or a retry after any other requests) fails
  with "You have already voted on this poll." and leaves the database as it was. The
  two calls of a concurrent pair are symmetric, so whichever the database serves first
  is the one that succeeds.
\<close>

theorem vote_unique_per_option_and_user:
  assumes inv: "unique_votes (db w)"
    and auth: "session_user_id sess = Some u" "u \<noteq> []"
    and opt: "list_ex (\<lambda>x. option_id x = opt) (options (db w))" "opt \<noteq> []"
    and usr: "list_ex (\<lambda>x. user_id x = u) (users (db w))"
    and fresh: "\<not> list_ex (\<lambda>v. vote_id v = i1) (votes (db w))"
    and first: "votes_for (db w) opt u = []"
  shows "(\<forall>reqs opt' u'. length (votes_for (db (run w reqs)) opt' u') \<le> 1)
       \<and> fst (submitVote sess i1 w opt) = Inr ()
       \<and> votes (db (snd (submitVote sess i1 w opt)))
           = votes (db w) @ [\<lparr>vote_id = i1, vote_optionId = opt, vote_userId = u\<rparr>]
       \<and> (\<forall>reqs i2.
             fst (submitVote sess i2 (run (snd (submitVote sess i1 w opt)) reqs) opt)
               = Inl (Error ''You have already voted on this poll.'')
           \<and> db (snd (submitVote sess i2 (run (snd (submitVote sess i1 w opt)) reqs) opt))
               = db (run (snd (submitVote sess i1 w opt)) reqs))"
proof -
  let ?row = "\<lparr>vote_id = i1, vote_optionId = opt, vote_userId = u\<rparr>"
  let ?w1 = "snd (submitVote sess i1 w opt)"
  have a: "\<forall>reqs opt' u'. length (votes_for (db (run w reqs)) opt' u') \<le> 1"
    using run_unique[OF inv] unique_votes_le1 by blast
  have s1: "submitVote sess i1 w opt
         = (Inr (), w\<lparr>db := (db w)\<lparr>votes := votes (db w) @ [?row]\<rparr>,
                       effects := effects w @ [PrismaVoteCreate, RevalidatePath ''/'']\<rparr>)"
    by (rule submitVote_fresh[OF auth opt(2) opt(1) usr fresh first])
  have b: "fst (submitVote sess i1 w opt) = Inr ()" by (simp add: s1)
  have c: "votes (db ?w1) = votes (db w) @ [?row]" by (simp add: s1)
  have d: "fst (submitVote sess i2 (run ?w1 reqs) opt)
             = Inl (Error ''You have already voted on this poll.'')
         \<and> db (snd (submitVote sess i2 (run ?w1 reqs) opt)) = db (run ?w1 reqs)" for reqs i2
  proof -
    have "?row \<in> set (votes (db ?w1))" by (simp add: c)
    then have "?row \<in> set (votes (db (run ?w1 reqs)))" using run_votes_mono by blast
    then have "list_ex (\<lambda>v. vote_optionId v = opt \<and> vote_userId v = u)
                 (votes (db (run ?w1 reqs)))"
      by (auto simp: list_ex_iff intro: bexI[of _ ?row])
    from submitVote_duplicate[OF auth opt(2) this] show ?thesis by simp
  qed
  from a b c d show ?thesis by blast
qed

theorem vote_unique_per_option_and_user_witness:
  "unique_votes (db scenario_world)
   \<and> session_user_id (session_of ''userB'') = Some ''userB''
   \<and> list_ex (\<lambda>x. option_id x = ''optGo'') (options (db scenario_world))
   \<and> list_ex (\<lambda>x. user_id x = ''userB'') (users (db scenario_world))
   \<and> votes_for (db scenario_world) ''optGo'' ''userB'' = []
   \<and> (\<forall>reqs opt' u'. length (votes_for (db (run scenario_world reqs)) opt' u') \<le> 1)
   \<and> fst (submitVote (session_of ''userB'') ''vote1'' scenario_world ''optGo'') = Inr ()
   \<and> votes (db (snd (submitVote (session_of ''userB'') ''vote1'' scenario_world ''optGo'')))
       = [\<lparr>vote_id = ''vote1'', vote_optionId = ''optGo'', vote_userId = ''userB''\<rparr>]
   \<and> (\<forall>reqs i2.
         fst (submitVote (session_of ''userB'') i2
                (run (snd (submitVote (session_of ''userB'') ''vote1'' scenario_world ''optGo'')) reqs)
                ''optGo'')
           = Inl (Error ''You have already voted on this poll.'')
       \<and> db (snd (submitVote (session_of ''userB'') i2
                (run (snd (submitVote (session_of ''userB'') ''vote1'' scenario_world ''optGo'')) reqs)
                ''optGo''))
           = db (run (snd (submitVote (session_of ''userB'') ''vote1'' scenario_world ''optGo'')) reqs))"
proof -
  have h1: "unique_votes (db scenario_world)"
    by (simp add: unique_votes_def scenario_defs)
  have h2: "session_user_id (session_of ''userB'') = Some ''userB''"
    by (simp add: scenario_defs)
  have h3: "''userB'' \<noteq> []" by simp
  have h4: "list_ex (\<lambda>x. option_id x = ''optGo'') (options (db scenario_world))"
    by (simp add: scenario_defs)
  have h5: "''optGo'' \<noteq> []" by simp
  have h6: "list_ex (\<lambda>x. user_id x = ''userB'') (users (db scenario_world))"
    by (simp add: scenario_defs)
  have h7: "\<not> list_ex (\<lambda>v. vote_id v = ''vote1'') (votes (db scenario_world))"
    by (simp add: scenario_defs)
  have h8: "votes_for (db scenario_world) ''optGo'' ''userB'' = []"
    by (simp add: votes_for_def scenario_defs)
  have v0: "votes (db scenario_world) = []" by (simp add: scenario_defs)
  from vote_unique_per_option_and_user[OF h1 h2 h3 h4 h5 h6 h7 h8] h1 h2 h4 h6 h8 v0
  show ?thesis by simp
qed

text \<open>
  C2. In the scenario, user A's card shows Go = 0. The vote for Go is applied
  optimistically (Go = 1), the call fails and the action ends: the card falls back to
  \<^verbatim>\<open>pollData\<close>, whose option object the update function has written to, so it still
  shows Go = 1. The user's-vote field is back at its prior value (none).
\<close>

theorem rollback_keeps_increment:
  "shown_votes (store (mount scenario_heap scenario_poll True))
       (optimisticPoll (mount scenario_heap scenario_poll True))
     = [(''optGo'', 0), (''optRust'', 0)]
   \<and> shown_votes (store (handleVote (mount scenario_heap scenario_poll True) ''optGo''))
       (optimisticPoll (handleVote (mount scenario_heap scenario_poll True) ''optGo''))
     = [(''optGo'', 1), (''optRust'', 0)]
   \<and> shown_votes
       (store (settle (handleVote (mount scenario_heap scenario_poll True) ''optGo'')
                 (Inl (Error ''Could not submit vote. Please try again.''))))
       (optimisticPoll (settle (handleVote (mount scenario_heap scenario_poll True) ''optGo'')
                 (Inl (Error ''Could not submit vote. Please try again.''))))
     = [(''optGo'', 1), (''optRust'', 0)]
   \<and> p_userVote
       (optimisticPoll (settle (handleVote (mount scenario_heap scenario_poll True) ''optGo'')
                 (Inl (Error ''Could not submit vote. Please try again.''))))
     = None"
  by (simp add: card_defs)

text \<open>
  C3. The server does not keep a user to one vote per poll: in the scenario, user A's
  vote for Go and then A's vote for Rust, both options of the same poll, are both
  accepted, and A ends with two Vote rows in that poll. (The comment on
  \<^verbatim>\<open>@@unique([optionId, userId])\<close> in the schema says the constraint prevents this.)
\<close>

theorem two_votes_in_one_poll:
  "fst (submitVote (session_of ''userA'') ''vote1'' scenario_world ''optGo'') = Inr ()
   \<and> fst (submitVote (session_of ''userA'') ''vote2''
            (snd (submitVote (session_of ''userA'') ''vote1'' scenario_world ''optGo''))
            ''optRust'') = Inr ()
   \<and> votes_in_poll
        (db (run scenario_world
               [SubmitVote (session_of ''userA'') ''vote1'' ''optGo'',
                SubmitVote (session_of ''userA'') ''vote2'' ''optRust'']))
        ''userA'' ''poll1''
       = [\<lparr>vote_id = ''vote1'', vote_optionId = ''optGo'', vote_userId = ''userA''\<rparr>,
          \<lparr>vote_id = ''vote2'', vote_optionId = ''optRust'', vote_userId = ''userA''\<rparr>]"
  by (simp add: run_def submitVote_def vote_create_def votes_in_poll_def in_poll_def scenario_defs)

text \<open>
  C4. The update function writes to the authoritative state: after one application to
  the scenario's \<^verbatim>\<open>pollData\<close> with the guess Go, \<^verbatim>\<open>pollData\<close> itself shows Go = 1, and
  computing the optimistic view again from the same \<^verbatim>\<open>pollData\<close> and the same guess gives
  Go = 2.
\<close>

theorem updater_writes_to_authoritative_state:
  "shown_votes scenario_heap scenario_poll = [(''optGo'', 0), (''optRust'', 0)]
   \<and> shown_votes (fst (updater scenario_heap scenario_poll ''optGo'')) scenario_poll
       = [(''optGo'', 1), (''optRust'', 0)]
   \<and> shown_votes
       (fst (updater (fst (updater scenario_heap scenario_poll ''optGo'')) scenario_poll ''optGo''))
       (snd (updater (fst (updater scenario_heap scenario_poll ''optGo'')) scenario_poll ''optGo''))
       = [(''optGo'', 2), (''optRust'', 0)]"
  by (simp add: card_defs)

text \<open>
  C5. When a vote for an option (its id, like every id of the store, not empty) has
  been submitted through an enabled button, the card's buttons are disabled while the
  optimistic state is shown, and submitting any option's form again changes nothing: the
  card (store, optimistic state, issued calls) is the same, and the only
  \<^verbatim>\<open>submitVote\<close> call issued is the first one. The guard is the button's
  \<^verbatim>\<open>disabled\<close> attribute; \<^verbatim>\<open>handleVote\<close> itself checks nothing.
\<close>

theorem second_submit_is_noop:
  assumes "\<not> disabled (optimisticPoll c) (isLoggedIn c)" and "optionId \<noteq> []"
  shows "submit_form c optionId = handleVote c optionId
       \<and> disabled (optimisticPoll (submit_form c optionId)) (isLoggedIn (submit_form c optionId))
       \<and> submit_form (submit_form c optionId) optionId' = submit_form c optionId
       \<and> requests (submit_form (submit_form c optionId) optionId') = requests c @ [optionId]"
proof -
  have first: "submit_form c optionId = handleVote c optionId"
    using assms(1) by (simp add: submit_form_def)
  have dis: "disabled (optimisticPoll (handleVote c optionId)) (isLoggedIn (handleVote c optionId))"
    using assms(2) by (simp add: disabled_def truthy_def)
  have second: "submit_form (handleVote c optionId) optionId' = handleVote c optionId"
    using dis by (simp add: submit_form_def)
  show ?thesis using dis by (simp add: first second)
qed

theorem second_submit_is_noop_witness:
  "\<not> disabled (optimisticPoll (mount scenario_heap scenario_poll True))
       (isLoggedIn (mount scenario_heap scenario_poll True))
   \<and> submit_form (submit_form (mount scenario_heap scenario_poll True) ''optGo'') ''optRust''
       = submit_form (mount scenario_heap scenario_poll True) ''optGo''
   \<and> requests (submit_form (submit_form (mount scenario_heap scenario_poll True) ''optGo'') ''optRust'')
       = requests (mount scenario_heap scenario_poll True) @ [''optGo'']
   \<and> requests (mount scenario_heap scenario_poll True) = []"
proof -
  let ?c = "mount scenario_heap scenario_poll True"
  have h1: "\<not> disabled (optimisticPoll ?c) (isLoggedIn ?c)" by (simp add: card_defs)
  have h2: "''optGo'' \<noteq> []" by simp
  have r: "requests ?c = []" by (simp add: mount_def)
  from second_submit_is_noop[OF h1 h2, of "''optRust''"] h1 r
  show ?thesis by blast
qed

text \<open>
  C6 as amended. A vote of a signed-in user for an option id that no Option row has
  persists nothing. An empty id is refused before the insert with "Invalid option ID
  provided."; any other id reaches the insert, is rejected by the foreign key, and the
  call fails with "Could not submit vote. Please try again.", the error of the catch
  block's fallback, which every failure other than a unique-constraint violation gets.
\<close>

theorem unknown_option_rejected:
  assumes "session_user_id sess = Some u" "u \<noteq> []"
    and "\<not> list_ex (\<lambda>x. option_id x = optionId) (options (db w))"
    and "votes_reference_options (db w)"
    and "\<not> list_ex (\<lambda>v. vote_id v = newId) (votes (db w))"
  shows "db (snd (submitVote sess newId w optionId)) = db w
       \<and> (optionId = [] \<longrightarrow>
            submitVote sess newId w optionId = (Inl (Error ''Invalid option ID provided.''), w))
       \<and> (optionId \<noteq> [] \<longrightarrow>
            submitVote sess newId w optionId
              = (Inl (Error ''Could not submit vote. Please try again.''),
                 w\<lparr>effects := effects w @ [PrismaVoteCreate]\<rparr>)
          \<and> fst (submitVote sess newId w optionId) = Inl (submitVote_catch UnknownError))"
proof -
  have "\<not> list_ex (\<lambda>v. vote_optionId v = optionId \<and> vote_userId v = u) (votes (db w))"
    by (rule no_vote_for_unknown_option[OF assms(4) assms(3)])
  with assms show ?thesis
    by (simp add: submitVote_def vote_create_def submitVote_catch_def)
qed

theorem unknown_option_rejected_witness:
  "session_user_id (session_of ''userA'') = Some ''userA''
   \<and> \<not> list_ex (\<lambda>x. option_id x = ''ghost'') (options (db scenario_world))
   \<and> votes_reference_options (db scenario_world)
   \<and> db (snd (submitVote (session_of ''userA'') ''vote1'' scenario_world ''ghost''))
       = db scenario_world
   \<and> submitVote (session_of ''userA'') ''vote1'' scenario_world ''ghost''
       = (Inl (Error ''Could not submit vote. Please try again.''),
          scenario_world\<lparr>effects := effects scenario_world @ [PrismaVoteCreate]\<rparr>)"
proof -
  have h1: "session_user_id (session_of ''userA'') = Some ''userA''" by (simp add: scenario_defs)
  have h2: "''userA'' \<noteq> []" by simp
  have h3: "\<not> list_ex (\<lambda>x. option_id x = ''ghost'') (options (db scenario_world))"
    by (simp add: scenario_defs)
  have h4: "votes_reference_options (db scenario_world)"
    by (simp add: votes_reference_options_def scenario_defs)
  have h5: "\<not> list_ex (\<lambda>v. vote_id v = ''vote1'') (votes (db scenario_world))"
    by (simp add: scenario_defs)
  from unknown_option_rejected[OF h1 h2 h3 h4 h5] h1 h3 h4 show ?thesis by simp
qed

text \<open>
  C6 as stated fails: for the option id "ghost", which no option of the scenario has,
  nothing is persisted, but the error is the fallback's (the one an unrecognised failure
  gets), not one that names an invalid target.
\<close>

theorem unknown_option_error_counterexample:
  "session_user_id (session_of ''userA'') = Some ''userA''
   \<and> map option_id (options (db scenario_world)) = [''optGo'', ''optRust'']
   \<and> fst (submitVote (session_of ''userA'') ''vote1'' scenario_world ''ghost'')
       = Inl (submitVote_catch UnknownError)
   \<and> fst (submitVote (session_of ''userA'') ''vote1'' scenario_world ''ghost'')
       \<noteq> Inl (Error ''Invalid option ID provided.'')
   \<and> votes (db (snd (submitVote (session_of ''userA'') ''vote1'' scenario_world ''ghost''))) = []"
  by (simp add: submitVote_def vote_create_def submitVote_catch_def scenario_defs)

text \<open>
  C7 as amended. A \<^verbatim>\<open>createPoll\<close> submission with an empty (or missing) question or
  with fewer than two non-empty option texts leaves the world as it was (no Poll row, no
  Option row, no persistence call), and is rejected with "Question and at least two
  options are required." when the caller is signed in, with "Not authenticated"
  otherwise.
\<close>

theorem invalid_poll_rejected:
  assumes "length (filter (\<lambda>t. t \<noteq> []) (getAll formData ''option'')) < 2
           \<or> \<not> truthy (get_field formData ''question'')"
  shows "snd (createPoll sess cuid now w formData) = w
       \<and> (truthy (session_user_id sess) \<longrightarrow>
            fst (createPoll sess cuid now w formData)
              = ReturnedError ''Question and at least two options are required.'')
       \<and> (\<not> truthy (session_user_id sess) \<longrightarrow>
            fst (createPoll sess cuid now w formData) = ReturnedError ''Not authenticated'')"
proof -
  have le: "length (filter (\<lambda>opt. trim opt \<noteq> []) (getAll formData ''option''))
              \<le> length (filter (\<lambda>t. t \<noteq> []) (getAll formData ''option''))"
    by (rule nonblank_le_nonempty)
  from assms le
  have bad: "\<not> truthy (get_field formData ''question'')
             \<or> length (filter (\<lambda>opt. trim opt \<noteq> []) (getAll formData ''option'')) < 2"
    by linarith
  then show ?thesis
    by (auto simp: createPoll_def Let_def truthy_def split: option.splits)
qed

theorem invalid_poll_rejected_witness:
  "length (filter (\<lambda>t. t \<noteq> [])
             (getAll [(''question'', ''X''), (''option'', ''only one'')] ''option'')) < 2
   \<and> truthy (session_user_id (session_of ''userA''))
   \<and> createPoll (session_of ''userA'') scenario_cuid 2 scenario_world
         [(''question'', ''X''), (''option'', ''only one'')]
       = (ReturnedError ''Question and at least two options are required.'', scenario_world)"
proof -
  let ?fd = "[(''question'', ''X''), (''option'', ''only one'')]"
  have h: "length (filter (\<lambda>t. t \<noteq> []) (getAll ?fd ''option'')) < 2"
    by (simp add: getAll_def)
  then have h': "length (filter (\<lambda>t. t \<noteq> []) (getAll ?fd ''option'')) < 2
                 \<or> \<not> truthy (get_field ?fd ''question'')" by (rule disjI1)
  have a: "truthy (session_user_id (session_of ''userA''))"
    by (simp add: truthy_def scenario_defs)
  from invalid_poll_rejected[OF h', of "session_of ''userA''" scenario_cuid 2 scenario_world] a
  have "createPoll (session_of ''userA'') scenario_cuid 2 scenario_world ?fd
       = (ReturnedError ''Question and at least two options are required.'', scenario_world)"
    by (simp add: prod_eq_iff)
  with h a show ?thesis by simp
qed

text \<open>
  C7 as stated fails: the scenario's form (question "X", the single option "only one")
  submitted without a session is rejected with "Not authenticated", not with the
  validation error.
\<close>

theorem invalid_poll_unauthenticated_counterexample:
  "getAll [(''question'', ''X''), (''option'', ''only one'')] ''option'' = [''only one'']
   \<and> fst (createPoll None scenario_cuid 2 scenario_world
            [(''question'', ''X''), (''option'', ''only one'')])
       = ReturnedError ''Not authenticated''
   \<and> fst (createPoll None scenario_cuid 2 scenario_world
            [(''question'', ''X''), (''option'', ''only one'')])
       \<noteq> ReturnedError ''Question and at least two options are required.''"
  by (simp add: createPoll_def getAll_def session_user_id_def)

text \<open>
  C8. After user A's accepted vote for Go, A's vote for Rust in the same poll is
  accepted as well; the listing read afterwards for A shows Rust's count one higher
  than before, but reports Go, the earlier row, as A's vote.
\<close>

theorem second_vote_not_shown:
  "fst (submitVote (session_of ''userA'') ''vote2''
          (run scenario_world [SubmitVote (session_of ''userA'') ''vote1'' ''optGo''])
          ''optRust'') = Inr ()
   \<and> shown_userVote
        (pollsWithUserVote (session_of ''userA'')
           (db (run scenario_world
                  [SubmitVote (session_of ''userA'') ''vote1'' ''optGo'',
                   SubmitVote (session_of ''userA'') ''vote2'' ''optRust''])))
        ''optRust''
       = [Some ''optGo'']
   \<and> shown_count
        (pollsWithUserVote (session_of ''userA'')
           (db (run scenario_world [SubmitVote (session_of ''userA'') ''vote1'' ''optGo''])))
        ''optRust'' = [0]
   \<and> shown_count
        (pollsWithUserVote (session_of ''userA'')
           (db (run scenario_world
                  [SubmitVote (session_of ''userA'') ''vote1'' ''optGo'',
                   SubmitVote (session_of ''userA'') ''vote2'' ''optRust''])))
        ''optRust'' = [1]"
  by (simp add: run_def submitVote_def vote_create_def shown_userVote_def shown_count_def
        pollsWithUserVote_def findMany_polls_def with_details_def userVote_of_def
        findFirst_vote_def in_poll_def count_votes_def
        scenario_defs)

text \<open>
  C9. A call of \<^verbatim>\<open>submitVote\<close> or \<^verbatim>\<open>createPoll\<close> whose session carries no user id
  (\<^verbatim>\<open>session?.user?.id\<close> is falsy) fails with the authentication error of that action
  and leaves the world as it was: the database is unchanged and no call to the
  persistence layer appears in the log.
\<close>

theorem unauthenticated_rejected:
  assumes "\<not> truthy (session_user_id sess)"
  shows "submitVote sess newId w optionId
           = (Inl (Error ''Not authenticated. Please sign in to vote.''), w)
       \<and> createPoll sess cuid now w formData = (ReturnedError ''Not authenticated'', w)"
  using assms
  by (simp add: submitVote_def createPoll_def truthy_def split: option.splits)

theorem unauthenticated_rejected_witness:
  "\<not> truthy (session_user_id None)
   \<and> submitVote None ''vote1'' scenario_world ''optGo''
       = (Inl (Error ''Not authenticated. Please sign in to vote.''), scenario_world)
   \<and> createPoll None scenario_cuid 2 scenario_world
         [(''question'', ''Tabs or spaces?''), (''option'', ''Tabs''), (''option'', ''Spaces'')]
       = (ReturnedError ''Not authenticated'', scenario_world)"
proof -
  have h: "\<not> truthy (session_user_id None)" by (simp add: truthy_def session_user_id_def)
  from unauthenticated_rejected[OF h] h show ?thesis by simp
qed

text \<open>
  C10 as amended. The update function applied with a non-empty option id that none of
  the poll's options has leaves the store, and so every rendered count, as it was, sets
  \<^verbatim>\<open>userVote\<close> to that id, and thereby disables every vote button of the card.
\<close>

theorem unmatched_option_update:
  assumes "votedOptionId \<notin> set (map (\<lambda>r. o_id (h r)) (p_options currentState))"
    and "votedOptionId \<noteq> []"
  shows "fst (updater h currentState votedOptionId) = h
       \<and> shown_votes (fst (updater h currentState votedOptionId))
            (snd (updater h currentState votedOptionId))
           = shown_votes h currentState
       \<and> p_userVote (snd (updater h currentState votedOptionId)) = Some votedOptionId
       \<and> disabled (snd (updater h currentState votedOptionId)) loggedIn"
  using assms updater_unmatched[OF assms(1)]
  by (simp add: shown_votes_def disabled_def truthy_def)

theorem unmatched_option_update_witness:
  "''ghost'' \<notin> set (map (\<lambda>r. o_id (scenario_heap r)) (p_options scenario_poll))
   \<and> fst (updater scenario_heap scenario_poll ''ghost'') = scenario_heap
   \<and> shown_votes (fst (updater scenario_heap scenario_poll ''ghost''))
        (snd (updater scenario_heap scenario_poll ''ghost''))
       = shown_votes scenario_heap scenario_poll
   \<and> shown_votes scenario_heap scenario_poll = [(''optGo'', 0), (''optRust'', 0)]
   \<and> p_userVote (snd (updater scenario_heap scenario_poll ''ghost'')) = Some ''ghost''
   \<and> disabled (snd (updater scenario_heap scenario_poll ''ghost'')) True"
proof -
  have h1: "''ghost'' \<notin> set (map (\<lambda>r. o_id (scenario_heap r)) (p_options scenario_poll))"
    by (simp add: scenario_heap_def scenario_poll_def)
  have h2: "''ghost'' \<noteq> []" by simp
  have s: "shown_votes scenario_heap scenario_poll = [(''optGo'', 0), (''optRust'', 0)]"
    by (simp add: card_defs)
  from unmatched_option_update[OF h1 h2, of True] h1 s show ?thesis by blast
qed

text \<open>
  C10 as stated fails for the empty string, which matches no option of the scenario's
  poll (their ids are optGo and optRust): no count changes and \<^verbatim>\<open>userVote\<close> becomes
  the empty string, which is falsy, so the buttons of a signed-in user stay enabled.
\<close>

theorem unmatched_empty_option_counterexample:
  "shown_votes scenario_heap scenario_poll = [(''optGo'', 0), (''optRust'', 0)]
   \<and> shown_votes (fst (updater scenario_heap scenario_poll []))
        (snd (updater scenario_heap scenario_poll []))
       = [(''optGo'', 0), (''optRust'', 0)]
   \<and> p_userVote (snd (updater scenario_heap scenario_poll [])) = Some []
   \<and> \<not> disabled (snd (updater scenario_heap scenario_poll [])) True"
  by (simp add: card_defs)

end
